theory Spec2Isabelle
  imports Complex_Main "HOL-Library.AList"
begin

section \<open>The call tracker of \<^verbatim>\<open>vocode/streaming/utils/call_tracker.py\<close>\<close>

text \<open>
  \<^verbatim>\<open>CallTracker\<close> keeps one dictionary, \<^verbatim>\<open>_call_sessions\<close>, from conversation ids to
  session dictionaries (\<^verbatim>\<open>Dict[str, Dict[str, any]]\<close>). Both levels are modelled as
  association lists in insertion order, which is what a Python dictionary is:
  \<^verbatim>\<open>d[k] = v\<close> is \<open>AList.update\<close> (an existing key keeps its place, a new one goes last),
  \<^verbatim>\<open>d.pop(k)\<close> is \<open>AList.delete\<close>, \<^verbatim>\<open>k in d\<close> and \<^verbatim>\<open>d[k]\<close> read \<open>map_of\<close>.
  A session's values are dynamically typed, so they are values of \<open>pyval\<close>, and a missing
  key or an operand of the wrong type is an error value, as the exception would be.

  The readings of \<^verbatim>\<open>time.time()\<close> and \<^verbatim>\<open>datetime.now()\<close> are parameters of each
  operation. A float is a \<open>real\<close>: subtraction is exact, rounding is not modelled.
\<close>

subsection \<open>Values, errors, log lines\<close>

datatype datetime =
  Datetime (year: nat) (month: nat) (day: nat) (hour: nat) (minute: nat) (second: nat)
    (microsecond: nat)

datatype pyval = PNone | PBool bool | PFloat real | PStr string | PDatetime datetime

datatype error = KeyError string | TypeError | AttributeError

type_synonym pydict = "(string \<times> pyval) list"

type_synonym tracker = "(string \<times> pydict) list"

datatype log_level = INFO | WARNING

text \<open>
  The log lines, by their interpolated values (the text, \<^verbatim>\<open>strftime\<close> and the two-decimal
  formatting are not modelled). \<open>CallEnded\<close> carries the values in the order of the
  f-string: id, from, to, start datetime, end datetime, total duration, and the agent
  duration when the line prints one (\<open>None\<close> is the text AGENT NEVER STARTED).
\<close>

datatype log_msg =
  CallStarted string string string datetime
| AgentStartNotFound string
| AgentStarted string datetime real
| EndNotFound string
| CallEnded string pyval pyval datetime datetime real "real option"

type_synonym log_entry = "log_level \<times> log_msg"

text \<open>
  What a call leaves behind: the value it returns or the exception it raises, the lines
  it logged, and the registry afterwards (an exception leaves the mutations made before
  it).
\<close>

type_synonym 'a outcome = "(error + 'a) \<times> log_entry list \<times> tracker"

definition returned :: "'a outcome \<Rightarrow> error + 'a" where
  "returned r = fst r"

definition logged :: "'a outcome \<Rightarrow> log_entry list" where
  "logged r = fst (snd r)"

definition sessions_after :: "'a outcome \<Rightarrow> tracker" where
  "sessions_after r = snd (snd r)"

definition keys :: "(string \<times> 'v) list \<Rightarrow> string set" where
  "keys d = fst ` set d"

text \<open>\<^verbatim>\<open>d[k]\<close>: a missing key raises \<^verbatim>\<open>KeyError\<close>.\<close>

definition getitem :: "(string \<times> 'v) list \<Rightarrow> string \<Rightarrow> error + 'v" where
  "getitem d k = (case map_of d k of None \<Rightarrow> Inl (KeyError k) | Some v \<Rightarrow> Inr v)"

text \<open>
  \<^verbatim>\<open>t - v\<close> for a float \<open>t\<close> (a clock reading) and a stored value \<open>v\<close>: a float or a
  bool (an int in Python) subtracts, anything else raises \<^verbatim>\<open>TypeError\<close>.
\<close>

fun float_sub :: "real \<Rightarrow> pyval \<Rightarrow> error + real" where
  "float_sub t (PFloat x) = Inr (t - x)"
| "float_sub t (PBool b) = Inr (t - (if b then 1 else 0))"
| "float_sub t v = Inl TypeError"

text \<open>Truth value of a stored value, as \<^verbatim>\<open>if v\<close> and \<^verbatim>\<open>v and w\<close> test it.\<close>

fun truthy :: "pyval \<Rightarrow> bool" where
  "truthy PNone = False"
| "truthy (PBool b) = b"
| "truthy (PFloat x) = (x \<noteq> 0)"
| "truthy (PStr s) = (s \<noteq> [])"
| "truthy (PDatetime d) = True"

text \<open>\<^verbatim>\<open>v.strftime(...)\<close>: only a datetime has the method.\<close>

fun strftime :: "pyval \<Rightarrow> error + datetime" where
  "strftime (PDatetime d) = Inr d"
| "strftime v = Inl AttributeError"

subsection \<open>The operations\<close>

definition CallTracker_init :: tracker where
  "CallTracker_init = []"

definition new_session :: "real \<Rightarrow> datetime \<Rightarrow> string \<Rightarrow> string \<Rightarrow> pydict" where
  "new_session start_time start_datetime to_phone from_phone =
     [(''start_time'', PFloat start_time),
      (''start_datetime'', PDatetime start_datetime),
      (''to_phone'', PStr to_phone),
      (''from_phone'', PStr from_phone),
      (''agent_started'', PBool False),
      (''agent_start_time'', PNone),
      (''end_time'', PNone),
      (''end_datetime'', PNone),
      (''duration'', PNone)]"

definition start_call_tracking ::
  "real \<Rightarrow> datetime \<Rightarrow> string \<Rightarrow> string \<Rightarrow> string \<Rightarrow> tracker \<Rightarrow> unit outcome" where
  "start_call_tracking start_time start_datetime conversation_id to_phone from_phone sessions =
     (Inr (),
      [(INFO, CallStarted conversation_id from_phone to_phone start_datetime)],
      AList.update conversation_id
        (new_session start_time start_datetime to_phone from_phone) sessions)"

definition mark_agent_started ::
  "real \<Rightarrow> datetime \<Rightarrow> string \<Rightarrow> tracker \<Rightarrow> unit outcome" where
  "mark_agent_started agent_start_time agent_start_datetime conversation_id sessions =
     (case map_of sessions conversation_id of
        None \<Rightarrow> (Inr (), [(WARNING, AgentStartNotFound conversation_id)], sessions)
      | Some s \<Rightarrow>
          let session = AList.update ''agent_start_time'' (PFloat agent_start_time)
                          (AList.update ''agent_started'' (PBool True) s);
              sessions' = AList.update conversation_id session sessions
          in (case getitem session ''start_time'' of
                Inl e \<Rightarrow> (Inl e, [], sessions')
              | Inr st \<Rightarrow>
                  (case float_sub agent_start_time st of
                     Inl e \<Rightarrow> (Inl e, [], sessions')
                   | Inr call_setup_duration \<Rightarrow>
                       (Inr (),
                        [(INFO, AgentStarted conversation_id agent_start_datetime
                                  call_setup_duration)],
                        sessions'))))"

text \<open>
  Lines 97 to 99 of the source: the local \<^verbatim>\<open>agent_duration\<close>, \<open>None\<close> unless
  \<^verbatim>\<open>session['agent_started'] and session['agent_start_time']\<close> is true (the second
  lookup only happens when the first value is true).
\<close>

definition agent_duration_of :: "real \<Rightarrow> pydict \<Rightarrow> error + real option" where
  "agent_duration_of end_time session =
     (case getitem session ''agent_started'' of
        Inl e \<Rightarrow> Inl e
      | Inr started \<Rightarrow>
          if \<not> truthy started then Inr None
          else (case getitem session ''agent_start_time'' of
                  Inl e \<Rightarrow> Inl e
                | Inr ast \<Rightarrow>
                    if \<not> truthy ast then Inr None
                    else (case float_sub end_time ast of
                            Inl e \<Rightarrow> Inl e
                          | Inr d \<Rightarrow> Inr (Some d))))"

text \<open>
  The f-string of the CALL ENDED line, evaluated left to right. The agent duration is
  printed only when \<^verbatim>\<open>if agent_duration\<close> is true: neither \<open>None\<close> nor \<open>0.0\<close>.
\<close>

definition call_ended_msg ::
  "string \<Rightarrow> pydict \<Rightarrow> datetime \<Rightarrow> real \<Rightarrow> real option \<Rightarrow> error + log_msg" where
  "call_ended_msg conversation_id session end_datetime total_duration agent_duration =
     (case getitem session ''from_phone'' of
        Inl e \<Rightarrow> Inl e
      | Inr from_phone \<Rightarrow>
          (case getitem session ''to_phone'' of
             Inl e \<Rightarrow> Inl e
           | Inr to_phone \<Rightarrow>
               (case getitem session ''start_datetime'' of
                  Inl e \<Rightarrow> Inl e
                | Inr sd \<Rightarrow>
                    (case strftime sd of
                       Inl e \<Rightarrow> Inl e
                     | Inr start_datetime \<Rightarrow>
                         Inr (CallEnded conversation_id from_phone to_phone start_datetime
                                end_datetime total_duration
                                (case agent_duration of
                                   None \<Rightarrow> None
                                 | Some d \<Rightarrow> if d \<noteq> 0 then Some d else None))))))"

definition end_call_tracking ::
  "real \<Rightarrow> datetime \<Rightarrow> string \<Rightarrow> tracker \<Rightarrow> pydict option outcome" where
  "end_call_tracking end_time end_datetime conversation_id sessions =
     (case map_of sessions conversation_id of
        None \<Rightarrow> (Inr None, [(WARNING, EndNotFound conversation_id)], sessions)
      | Some s \<Rightarrow>
          let session1 = AList.update ''end_datetime'' (PDatetime end_datetime)
                           (AList.update ''end_time'' (PFloat end_time) s);
              sessions1 = AList.update conversation_id session1 sessions
          in (case getitem session1 ''start_time'' of
                Inl e \<Rightarrow> (Inl e, [], sessions1)
              | Inr st \<Rightarrow>
                  (case float_sub end_time st of
                     Inl e \<Rightarrow> (Inl e, [], sessions1)
                   | Inr total_duration \<Rightarrow>
                       let session = AList.update ''duration'' (PFloat total_duration) session1;
                           sessions2 = AList.update conversation_id session sessions
                       in (case agent_duration_of end_time session of
                             Inl e \<Rightarrow> (Inl e, [], sessions2)
                           | Inr agent_duration \<Rightarrow>
                               (case call_ended_msg conversation_id session end_datetime
                                       total_duration agent_duration of
                                  Inl e \<Rightarrow> (Inl e, [], sessions2)
                                | Inr msg \<Rightarrow>
                                    (Inr (Some session), [(INFO, msg)],
                                     AList.delete conversation_id sessions2))))))"

definition get_call_status :: "real \<Rightarrow> string \<Rightarrow> tracker \<Rightarrow> pydict option outcome" where
  "get_call_status current_time conversation_id sessions =
     (case map_of sessions conversation_id of
        None \<Rightarrow> (Inr None, [], sessions)
      | Some session \<Rightarrow>
          (case getitem session ''end_time'' of
             Inl e \<Rightarrow> (Inl e, [], sessions)
           | Inr et \<Rightarrow>
               if et = PNone then
                 (case getitem session ''start_time'' of
                    Inl e \<Rightarrow> (Inl e, [], sessions)
                  | Inr st \<Rightarrow>
                      (case float_sub current_time st of
                         Inl e \<Rightarrow> (Inl e, [], sessions)
                       | Inr d \<Rightarrow>
                           (Inr (Some (AList.update ''current_duration'' (PFloat d) session)),
                            [], sessions)))
               else (Inr (Some session), [], sessions)))"

text \<open>The loop of \<^verbatim>\<open>get_active_calls\<close> over \<^verbatim>\<open>_call_sessions.items()\<close>.\<close>

fun active_calls_loop :: "real \<Rightarrow> tracker \<Rightarrow> tracker \<Rightarrow> error + tracker" where
  "active_calls_loop current_time [] active_calls = Inr active_calls"
| "active_calls_loop current_time ((conv_id, session) # items) active_calls =
     (case getitem session ''end_time'' of
        Inl e \<Rightarrow> Inl e
      | Inr et \<Rightarrow>
          if et = PNone then
            (case getitem session ''start_time'' of
               Inl e \<Rightarrow> Inl e
             | Inr st \<Rightarrow>
                 (case float_sub current_time st of
                    Inl e \<Rightarrow> Inl e
                  | Inr d \<Rightarrow>
                      active_calls_loop current_time items
                        (AList.update conv_id
                           (AList.update ''current_duration'' (PFloat d) session)
                           active_calls)))
          else active_calls_loop current_time items active_calls)"

definition get_active_calls :: "real \<Rightarrow> tracker \<Rightarrow> tracker outcome" where
  "get_active_calls current_time sessions =
     (active_calls_loop current_time sessions [], [], sessions)"

subsection \<open>Sequences of calls\<close>

text \<open>
  A call of the tracker's interface with the clock readings it takes. The registry is
  only reached through these five methods, so its reachable states are the ones a
  sequence of calls leaves, starting from the empty registry of \<^verbatim>\<open>__init__\<close>.
\<close>

datatype call =
  Begin real datetime string string string
| MarkAgent real datetime string
| End real datetime string
| GetStatus real string
| GetActive real

fun exec :: "call \<Rightarrow> tracker \<Rightarrow> tracker" where
  "exec (Begin t dt cid to_phone from_phone) sessions =
     sessions_after (start_call_tracking t dt cid to_phone from_phone sessions)"
| "exec (MarkAgent t dt cid) sessions = sessions_after (mark_agent_started t dt cid sessions)"
| "exec (End t dt cid) sessions = sessions_after (end_call_tracking t dt cid sessions)"
| "exec (GetStatus t cid) sessions = sessions_after (get_call_status t cid sessions)"
| "exec (GetActive t) sessions = sessions_after (get_active_calls t sessions)"

fun run :: "call list \<Rightarrow> tracker \<Rightarrow> tracker" where
  "run [] sessions = sessions"
| "run (c # cs) sessions = run cs (exec c sessions)"

subsection \<open>Notions the properties are stated with\<close>

text \<open>
  The shape of every session the registry holds: the nine keys \<open>start_call_tracking\<close>
  writes, of which \<open>mark_agent_started\<close> changes only \<open>agent_started\<close> and
  \<open>agent_start_time\<close>; and the shape of the record \<open>end_call_tracking\<close> returns.
\<close>

definition stored_session ::
  "real \<Rightarrow> datetime \<Rightarrow> string \<Rightarrow> string \<Rightarrow> bool \<Rightarrow> real option \<Rightarrow> pydict" where
  "stored_session st sdt to_phone from_phone started ast =
     [(''start_time'', PFloat st),
      (''start_datetime'', PDatetime sdt),
      (''to_phone'', PStr to_phone),
      (''from_phone'', PStr from_phone),
      (''agent_started'', PBool started),
      (''agent_start_time'', (case ast of None \<Rightarrow> PNone | Some t \<Rightarrow> PFloat t)),
      (''end_time'', PNone),
      (''end_datetime'', PNone),
      (''duration'', PNone)]"

definition ended_session ::
  "real \<Rightarrow> datetime \<Rightarrow> string \<Rightarrow> string \<Rightarrow> bool \<Rightarrow> real option \<Rightarrow> real \<Rightarrow> datetime \<Rightarrow> pydict" where
  "ended_session st sdt to_phone from_phone started ast et edt =
     [(''start_time'', PFloat st),
      (''start_datetime'', PDatetime sdt),
      (''to_phone'', PStr to_phone),
      (''from_phone'', PStr from_phone),
      (''agent_started'', PBool started),
      (''agent_start_time'', (case ast of None \<Rightarrow> PNone | Some t \<Rightarrow> PFloat t)),
      (''end_time'', PFloat et),
      (''end_datetime'', PDatetime edt),
      (''duration'', PFloat (et - st))]"

text \<open>The invariant of the registry: every entry is a stored session.\<close>

definition all_stored :: "tracker \<Rightarrow> bool" where
  "all_stored sessions =
     (\<forall>k s. (k, s) \<in> set sessions \<longrightarrow>
        (\<exists>st sdt to_phone from_phone started ast.
           s = stored_session st sdt to_phone from_phone started ast))"

text \<open>
  What a call is to a given id: a begin of it, an end of it, and the id whose session the
  call may change (the two queries change none).
\<close>

fun begins :: "string \<Rightarrow> call \<Rightarrow> bool" where
  "begins cid (Begin t dt c to_phone from_phone) = (c = cid)"
| "begins cid c = False"

fun ends :: "string \<Rightarrow> call \<Rightarrow> bool" where
  "ends cid (End t dt c) = (c = cid)"
| "ends cid c = False"

fun target :: "call \<Rightarrow> string option" where
  "target (Begin t dt cid to_phone from_phone) = Some cid"
| "target (MarkAgent t dt cid) = Some cid"
| "target (End t dt cid) = Some cid"
| "target (GetStatus t cid) = None"
| "target (GetActive t) = None"


definition no_begin_end :: "string \<Rightarrow> call list \<Rightarrow> bool" where
  "no_begin_end cid cs = list_all (\<lambda>c. \<not> begins cid c \<and> \<not> ends cid c) cs"

definition untouched :: "string \<Rightarrow> call list \<Rightarrow> bool" where
  "untouched cid cs = list_all (\<lambda>c. target c \<noteq> Some cid) cs"

text \<open>
  The ids for which begin has been called and end has not been called since, read off a
  sequence of calls: the set the specification gives for \<open>get_active_calls\<close>.
\<close>

fun live_ids :: "string set \<Rightarrow> call list \<Rightarrow> string set" where
  "live_ids L [] = L"
| "live_ids L (Begin t dt cid to_phone from_phone # cs) = live_ids (insert cid L) cs"
| "live_ids L (End t dt cid # cs) = live_ids (L - {cid}) cs"
| "live_ids L (c # cs) = live_ids L cs"

section \<open>Lemmas\<close>

subsection \<open>The operations on a stored session\<close>

lemma new_session_stored:
  "new_session st sdt to_phone from_phone = stored_session st sdt to_phone from_phone False None"
  by (simp add: new_session_def stored_session_def)

lemma mark_stored:
  assumes "map_of sessions cid = Some (stored_session st sdt to_phone from_phone b a)"
  shows "mark_agent_started t dt cid sessions =
    (Inr (), [(INFO, AgentStarted cid dt (t - st))],
     AList.update cid (stored_session st sdt to_phone from_phone True (Some t)) sessions)"
  using assms by (simp add: mark_agent_started_def stored_session_def getitem_def Let_def)

lemma agent_duration_stored:
  "agent_duration_of et (ended_session st sdt to_phone from_phone b a et edt) =
     Inr (if b then (case a of None \<Rightarrow> None | Some ta \<Rightarrow> if ta = 0 then None else Some (et - ta))
          else None)"
  by (simp add: agent_duration_of_def ended_session_def getitem_def split: option.splits)

lemma call_ended_msg_stored:
  "call_ended_msg cid (ended_session st sdt to_phone from_phone b a et edt) edt' tot ad =
     Inr (CallEnded cid (PStr from_phone) (PStr to_phone) sdt edt' tot
           (case ad of None \<Rightarrow> None | Some d \<Rightarrow> if d \<noteq> 0 then Some d else None))"
  by (simp add: call_ended_msg_def ended_session_def getitem_def)

lemma end_stored:
  assumes "map_of sessions cid = Some (stored_session st sdt to_phone from_phone b a)"
  shows "end_call_tracking et edt cid sessions =
    (Inr (Some (ended_session st sdt to_phone from_phone b a et edt)),
     [(INFO, CallEnded cid (PStr from_phone) (PStr to_phone) sdt edt (et - st)
        (if b then (case a of None \<Rightarrow> None
                    | Some ta \<Rightarrow> if ta = 0 \<or> et - ta = 0 then None else Some (et - ta))
         else None))],
     AList.delete cid sessions)"
proof -
  have upd: "AList.update ''duration'' (PFloat (et - st))
          (AList.update ''end_datetime'' (PDatetime edt)
            (AList.update ''end_time'' (PFloat et)
               (stored_session st sdt to_phone from_phone b a))) =
        ended_session st sdt to_phone from_phone b a et edt"
    by (simp add: stored_session_def ended_session_def)
  have st: "getitem (AList.update ''end_datetime'' (PDatetime edt)
            (AList.update ''end_time'' (PFloat et)
               (stored_session st sdt to_phone from_phone b a))) ''start_time'' = Inr (PFloat st)"
    by (simp add: stored_session_def getitem_def)
  show ?thesis
    using assms
    by (simp add: end_call_tracking_def Let_def st upd agent_duration_stored
        call_ended_msg_stored delete_update_same split: option.splits)
qed

lemma status_stored:
  assumes "map_of sessions cid = Some (stored_session st sdt to_phone from_phone b a)"
  shows "get_call_status t cid sessions =
    (Inr (Some (stored_session st sdt to_phone from_phone b a @
                [(''current_duration'', PFloat (t - st))])), [], sessions)"
  using assms by (simp add: get_call_status_def stored_session_def getitem_def)

subsection \<open>Every reachable registry holds stored sessions only\<close>

lemma set_update_subset: "set (AList.update k v al) \<subseteq> insert (k, v) (set al)"
  by (induction al) auto

lemma set_delete_subset: "set (AList.delete k al) \<subseteq> set al"
  by (auto simp: AList.delete_eq)

lemma all_stored_update:
  "all_stored sessions \<Longrightarrow>
   all_stored (AList.update cid (stored_session st sdt to_phone from_phone b a) sessions)"
  unfolding all_stored_def using set_update_subset by fastforce

lemma all_stored_delete: "all_stored sessions \<Longrightarrow> all_stored (AList.delete cid sessions)"
  unfolding all_stored_def using set_delete_subset by fastforce

lemma all_stored_lookup:
  assumes "all_stored sessions" "map_of sessions cid = Some s"
  obtains st sdt to_phone from_phone b a
  where "s = stored_session st sdt to_phone from_phone b a"
  using assms map_of_SomeD unfolding all_stored_def by fast

lemma all_stored_init: "all_stored CallTracker_init"
  by (simp add: all_stored_def CallTracker_init_def)

lemma exec_stored: "all_stored sessions \<Longrightarrow> all_stored (exec c sessions)"
proof (cases c)
  case (Begin t dt cid to_phone from_phone)
  assume "all_stored sessions"
  then show ?thesis
    by (simp add: Begin start_call_tracking_def sessions_after_def new_session_stored
        all_stored_update)
next
  case (MarkAgent t dt cid)
  assume a: "all_stored sessions"
  show ?thesis
  proof (cases "map_of sessions cid")
    case None
    then show ?thesis using a by (simp add: MarkAgent mark_agent_started_def sessions_after_def)
  next
    case (Some s)
    from a Some obtain st sdt to_phone from_phone b x
      where "s = stored_session st sdt to_phone from_phone b x" by (rule all_stored_lookup)
    with Some a show ?thesis
      by (simp add: MarkAgent mark_stored sessions_after_def all_stored_update)
  qed
next
  case (End t dt cid)
  assume a: "all_stored sessions"
  show ?thesis
  proof (cases "map_of sessions cid")
    case None
    then show ?thesis using a by (simp add: End end_call_tracking_def sessions_after_def)
  next
    case (Some s)
    from a Some obtain st sdt to_phone from_phone b x
      where "s = stored_session st sdt to_phone from_phone b x" by (rule all_stored_lookup)
    with Some a show ?thesis
      by (simp add: End end_stored sessions_after_def all_stored_delete)
  qed
next
  case (GetStatus t cid)
  assume a: "all_stored sessions"
  have "sessions_after (get_call_status t cid sessions) = sessions"
    by (simp add: get_call_status_def sessions_after_def split: option.splits sum.splits)
  with a show ?thesis by (simp add: GetStatus)
next
  case (GetActive t)
  assume "all_stored sessions"
  then show ?thesis by (simp add: GetActive get_active_calls_def sessions_after_def)
qed

lemma run_stored: "all_stored sessions \<Longrightarrow> all_stored (run cs sessions)"
  by (induction cs arbitrary: sessions) (auto simp: exec_stored)

lemma reachable_stored: "all_stored (run cs CallTracker_init)"
  by (rule run_stored [OF all_stored_init])


lemma keys_update: "keys (AList.update k v al) = insert k (keys al)"
  by (simp add: keys_def dom_update)

lemma keys_delete: "keys (AList.delete k al) = keys al - {k}"
proof -
  have "set (map fst (AList.delete k al)) = set (map fst al) - {k}"
    by (simp add: delete_keys)
  then show ?thesis by (simp add: keys_def)
qed

lemma keys_Cons: "keys ((k, v) # al) = insert k (keys al)"
  by (simp add: keys_def)

lemma keys_lookup: "(map_of al k = None) = (k \<notin> keys al)"
  by (simp add: keys_def map_of_eq_None_iff)

lemma loop_stored:
  "all_stored items \<Longrightarrow>
   \<exists>res. active_calls_loop t items acc = Inr res \<and> keys res = keys acc \<union> keys items"
proof (induction items arbitrary: acc)
  case Nil
  then show ?case by (simp add: keys_def)
next
  case (Cons p items)
  obtain k s where p: "p = (k, s)" by (cases p)
  from Cons.prems have rest: "all_stored items" by (simp add: all_stored_def)
  have "(k, s) \<in> set (p # items)" by (simp add: p)
  with Cons.prems obtain st sdt to_phone from_phone b a
    where s: "s = stored_session st sdt to_phone from_phone b a"
    unfolding all_stored_def by blast
  have step: "active_calls_loop t (p # items) acc =
      active_calls_loop t items
        (AList.update k (AList.update ''current_duration'' (PFloat (t - st)) s) acc)"
    by (simp add: p s stored_session_def getitem_def)
  from Cons.IH [OF rest] obtain res where
    r: "active_calls_loop t items
        (AList.update k (AList.update ''current_duration'' (PFloat (t - st)) s) acc) = Inr res"
    and kr: "keys res =
       keys (AList.update k (AList.update ''current_duration'' (PFloat (t - st)) s) acc)
       \<union> keys items"
    by blast
  from r have "active_calls_loop t (p # items) acc = Inr res"
    by (simp only: step)
  moreover from kr have "keys res = keys acc \<union> keys (p # items)"
    by (simp add: keys_update keys_Cons p)
  ultimately show ?case by blast
qed

lemma active_stored:
  "all_stored sessions \<Longrightarrow>
   \<exists>active. get_active_calls t sessions = (Inr active, [], sessions) \<and> keys active = keys sessions"
  using loop_stored [of sessions t "[]"] by (auto simp: get_active_calls_def keys_def)

lemma exec_keys: "all_stored sessions \<Longrightarrow> keys (exec c sessions) = live_ids (keys sessions) [c]"
proof (cases c)
  case (Begin t dt cid to_phone from_phone)
  show ?thesis
    by (simp add: Begin start_call_tracking_def sessions_after_def keys_update)
next
  case (MarkAgent t dt cid)
  assume a: "all_stored sessions"
  show ?thesis
  proof (cases "map_of sessions cid")
    case None
    then show ?thesis by (simp add: MarkAgent mark_agent_started_def sessions_after_def)
  next
    case (Some s)
    from a Some obtain st sdt to_phone from_phone b x
      where "s = stored_session st sdt to_phone from_phone b x" by (rule all_stored_lookup)
    moreover from Some have "cid \<in> keys sessions" using keys_lookup [of sessions cid] by simp
    ultimately show ?thesis using Some
      by (auto simp: MarkAgent mark_stored sessions_after_def keys_update)
  qed
next
  case (End t dt cid)
  assume a: "all_stored sessions"
  show ?thesis
  proof (cases "map_of sessions cid")
    case None
    moreover from None have "cid \<notin> keys sessions" by (simp add: keys_lookup)
    ultimately show ?thesis by (simp add: End end_call_tracking_def sessions_after_def)
  next
    case (Some s)
    from a Some obtain st sdt to_phone from_phone b x
      where "s = stored_session st sdt to_phone from_phone b x" by (rule all_stored_lookup)
    with Some show ?thesis
      by (simp add: End end_stored sessions_after_def keys_delete)
  qed
next
  case (GetStatus t cid)
  have "sessions_after (get_call_status t cid sessions) = sessions"
    by (simp add: get_call_status_def sessions_after_def split: option.splits sum.splits)
  then show ?thesis by (simp add: GetStatus)
next
  case (GetActive t)
  show ?thesis by (simp add: GetActive get_active_calls_def sessions_after_def)
qed

lemma live_ids_step: "live_ids L (c # cs) = live_ids (live_ids L [c]) cs"
  by (cases c) simp_all

lemma run_keys: "all_stored sessions \<Longrightarrow> keys (run cs sessions) = live_ids (keys sessions) cs"
proof (induction cs arbitrary: sessions)
  case Nil
  then show ?case by simp
next
  case (Cons c cs)
  from Cons.prems have "all_stored (exec c sessions)" by (rule exec_stored)
  then have "keys (run cs (exec c sessions)) = live_ids (keys (exec c sessions)) cs"
    by (rule Cons.IH)
  with Cons.prems show ?case
    using live_ids_step [of "keys sessions" c cs] by (simp add: exec_keys)
qed

subsection \<open>What a call leaves of another id's session, and of its own\<close>

lemma run_append: "run (xs @ ys) sessions = run ys (run xs sessions)"
  by (induction xs arbitrary: sessions) auto

lemma status_state: "sessions_after (get_call_status t cid sessions) = sessions"
  by (simp add: get_call_status_def sessions_after_def split: option.splits sum.splits)

lemma mark_other:
  "c \<noteq> cid \<Longrightarrow> map_of (sessions_after (mark_agent_started t dt c sessions)) cid =
     map_of sessions cid"
  by (simp add: mark_agent_started_def sessions_after_def Let_def update_conv'
      split: option.splits sum.splits)

lemma end_other:
  "c \<noteq> cid \<Longrightarrow> map_of (sessions_after (end_call_tracking t dt c sessions)) cid =
     map_of sessions cid"
  by (simp add: end_call_tracking_def sessions_after_def Let_def update_conv' delete_conv'
      split: option.splits sum.splits)

lemma exec_other: "target c \<noteq> Some cid \<Longrightarrow> map_of (exec c sessions) cid = map_of sessions cid"
proof (cases c)
  case (Begin t dt c' to_phone from_phone)
  assume "target c \<noteq> Some cid"
  then show ?thesis
    by (simp add: Begin start_call_tracking_def sessions_after_def update_conv')
next
  case (MarkAgent t dt c')
  assume "target c \<noteq> Some cid"
  then show ?thesis by (simp add: MarkAgent mark_other)
next
  case (End t dt c')
  assume "target c \<noteq> Some cid"
  then show ?thesis by (simp add: End end_other)
next
  case (GetStatus t c')
  then show ?thesis by (simp add: status_state)
next
  case (GetActive t)
  then show ?thesis by (simp add: get_active_calls_def sessions_after_def)
qed

lemma run_other: "untouched cid cs \<Longrightarrow> map_of (run cs sessions) cid = map_of sessions cid"
  by (induction cs arbitrary: sessions) (auto simp: untouched_def exec_other)



lemma exec_core:
  assumes "map_of sessions cid = Some (stored_session st sdt to_phone from_phone b a)"
    and "\<not> begins cid c" and "\<not> ends cid c"
  shows "\<exists>b' a'. map_of (exec c sessions) cid =
           Some (stored_session st sdt to_phone from_phone b' a')"
proof (cases "target c = Some cid")
  case False
  with assms show ?thesis by (auto simp: exec_other)
next
  case True
  with assms obtain t dt where "c = MarkAgent t dt cid" by (cases c) auto
  with assms show ?thesis
    by (auto simp: mark_stored sessions_after_def update_conv')
qed

lemma run_core:
  "map_of sessions cid = Some (stored_session st sdt to_phone from_phone b a) \<Longrightarrow>
   no_begin_end cid cs \<Longrightarrow>
   \<exists>b' a'. map_of (run cs sessions) cid =
      Some (stored_session st sdt to_phone from_phone b' a')"
proof (induction cs arbitrary: sessions b a)
  case Nil
  then show ?case by auto
next
  case (Cons c cs)
  from Cons.prems have c: "\<not> begins cid c" "\<not> ends cid c" and cs: "no_begin_end cid cs"
    by (simp_all add: no_begin_end_def)
  from exec_core [OF Cons.prems(1) c] obtain b' a' where
    "map_of (exec c sessions) cid = Some (stored_session st sdt to_phone from_phone b' a')"
    by blast
  from Cons.IH [OF this cs] show ?case by simp
qed


lemma begin_stored:
  "map_of (exec (Begin t0 dt0 cid to_phone from_phone) sessions) cid =
     Some (stored_session t0 dt0 to_phone from_phone False None)"
  by (simp add: start_call_tracking_def sessions_after_def update_conv' new_session_stored)


lemma begun_core:
  assumes "no_begin_end cid mid"
  shows "\<exists>b a. map_of (run (pre @ Begin t0 dt0 cid to_phone from_phone # mid) sessions) cid =
           Some (stored_session t0 dt0 to_phone from_phone b a)"
  using run_core [OF begin_stored assms] by (simp add: run_append)

lemma stored_end_time:
  "all_stored sessions \<Longrightarrow> list_all (\<lambda>(k, s). map_of s ''end_time'' = Some PNone) sessions"
proof -
  assume a: "all_stored sessions"
  have "map_of s ''end_time'' = Some PNone" if "(k, s) \<in> set sessions" for k s
  proof -
    from a that obtain st sdt to_phone from_phone b x
      where "s = stored_session st sdt to_phone from_phone b x"
      unfolding all_stored_def by blast
    then show ?thesis by (simp add: stored_session_def)
  qed
  then show ?thesis by (auto simp: list_all_iff)
qed

section \<open>Properties\<close>

subsection \<open>Calls on an id the registry does not hold\<close>

text \<open>
  Claim C3. When the conversation id is not a key of the registry (it was never begun,
  or its session was already ended and removed), \<open>end_call_tracking\<close> returns \<open>None\<close>,
  raises nothing, logs the warning and leaves the registry as it was.
\<close>

theorem end_call_tracking_not_found:
  "map_of sessions cid = None \<Longrightarrow>
   end_call_tracking t dt cid sessions = (Inr None, [(WARNING, EndNotFound cid)], sessions)"
  by (simp add: end_call_tracking_def)

theorem end_call_tracking_not_found_witness:
  "map_of (run [Begin 10 (Datetime 2024 3 5 9 0 0 0) ''c1'' ''+1555'' ''+1777'',
                End 12 (Datetime 2024 3 5 9 0 2 0) ''c1''] CallTracker_init) ''c1'' = None
   \<and> end_call_tracking 13 (Datetime 2024 3 5 9 0 3 0) ''c1''
         (run [Begin 10 (Datetime 2024 3 5 9 0 0 0) ''c1'' ''+1555'' ''+1777'',
               End 12 (Datetime 2024 3 5 9 0 2 0) ''c1''] CallTracker_init) =
       (Inr None, [(WARNING, EndNotFound ''c1'')],
        run [Begin 10 (Datetime 2024 3 5 9 0 0 0) ''c1'' ''+1555'' ''+1777'',
             End 12 (Datetime 2024 3 5 9 0 2 0) ''c1''] CallTracker_init)"
proof -
  have h: "map_of (run [Begin 10 (Datetime 2024 3 5 9 0 0 0) ''c1'' ''+1555'' ''+1777'',
                End 12 (Datetime 2024 3 5 9 0 2 0) ''c1''] CallTracker_init) ''c1'' = None"
    by (simp add: CallTracker_init_def start_call_tracking_def end_call_tracking_def
        sessions_after_def new_session_def getitem_def agent_duration_of_def
        call_ended_msg_def Let_def)
  show ?thesis
    using h end_call_tracking_not_found [OF h] by (rule conjI)
qed

text \<open>
  Claim C5. When the conversation id is not a key of the registry,
  \<open>mark_agent_started\<close> logs a warning, returns without raising and leaves the registry
  as it was, so a later \<open>start_call_tracking\<close> of that id does exactly what it would
  have done without the call.
\<close>

theorem mark_agent_started_not_found:
  "map_of sessions cid = None \<Longrightarrow>
   mark_agent_started t dt cid sessions =
     (Inr (), [(WARNING, AgentStartNotFound cid)], sessions)
   \<and> start_call_tracking t' dt' cid to_phone from_phone
        (sessions_after (mark_agent_started t dt cid sessions)) =
       start_call_tracking t' dt' cid to_phone from_phone sessions"
  by (simp add: mark_agent_started_def sessions_after_def)

theorem mark_agent_started_not_found_witness:
  "map_of CallTracker_init ''c1'' = None
   \<and> mark_agent_started 5 (Datetime 2024 3 5 9 0 0 0) ''c1'' CallTracker_init =
       (Inr (), [(WARNING, AgentStartNotFound ''c1'')], CallTracker_init)
   \<and> start_call_tracking 6 (Datetime 2024 3 5 9 0 2 0) ''c1'' ''+1555'' ''+1777''
        (sessions_after (mark_agent_started 5 (Datetime 2024 3 5 9 0 0 0) ''c1''
           CallTracker_init)) =
       start_call_tracking 6 (Datetime 2024 3 5 9 0 2 0) ''c1'' ''+1555'' ''+1777''
         CallTracker_init"
proof -
  have h: "map_of CallTracker_init ''c1'' = None"
    by (simp add: CallTracker_init_def)
  show ?thesis
    using h mark_agent_started_not_found [OF h] by (rule conjI)
qed

subsection \<open>Beginning a session\<close>

text \<open>
  Claim C4. For every id and every registry, also one that already holds a session
  under the id, \<open>start_call_tracking\<close> returns without an error and stores under the id
  a fresh record: the given phone numbers, the start time just read, \<open>agent_started\<close>
  false, and \<open>agent_start_time\<close>, \<open>end_time\<close>, \<open>end_datetime\<close> and \<open>duration\<close> all
  \<open>None\<close>. Whatever was stored under the id before is replaced; the other ids keep
  their sessions.
\<close>

theorem start_call_tracking_fresh:
  "returned (start_call_tracking t dt cid to_phone from_phone sessions) = Inr ()
   \<and> logged (start_call_tracking t dt cid to_phone from_phone sessions) =
       [(INFO, CallStarted cid from_phone to_phone dt)]
   \<and> map_of (sessions_after (start_call_tracking t dt cid to_phone from_phone sessions)) =
       (map_of sessions)(cid \<mapsto>
         [(''start_time'', PFloat t), (''start_datetime'', PDatetime dt),
          (''to_phone'', PStr to_phone), (''from_phone'', PStr from_phone),
          (''agent_started'', PBool False), (''agent_start_time'', PNone),
          (''end_time'', PNone), (''end_datetime'', PNone), (''duration'', PNone)])"
  by (simp add: start_call_tracking_def returned_def logged_def sessions_after_def
      new_session_def update_conv')

subsection \<open>The active calls\<close>

text \<open>
  Claim C2. In every reachable registry (the one any sequence of calls leaves, from the
  empty registry), \<open>get_active_calls\<close> returns without an error a dictionary whose keys
  are exactly the conversation ids for which begin has been called and end has not been
  called since.
\<close>

theorem active_calls_exact:
  "\<exists>active. returned (get_active_calls now (run cs CallTracker_init)) = Inr active
     \<and> keys active = live_ids {} cs"
proof -
  have st: "all_stored (run cs CallTracker_init)" by (rule reachable_stored)
  from active_stored [OF st, of now] obtain active where
    "get_active_calls now (run cs CallTracker_init) = (Inr active, [], run cs CallTracker_init)"
    "keys active = keys (run cs CallTracker_init)" by blast
  moreover have "keys (run cs CallTracker_init) = live_ids {} cs"
    using run_keys [OF all_stored_init, of cs] by (simp add: keys_def CallTracker_init_def)
  ultimately show ?thesis by (simp add: returned_def)
qed

subsection \<open>Ending a session\<close>

text \<open>
  Claim C7. After \<open>start_call_tracking\<close> of an id at time \<open>t0\<close> and then, with no other
  begin or end of that id in between, \<open>end_call_tracking\<close> of it at time \<open>t1\<close>, the
  record that \<open>end_call_tracking\<close> returns has \<open>start_time = t0\<close>, \<open>end_time = t1\<close> and
  \<open>duration = t1 - t0\<close>, and the id is not a key of what \<open>get_active_calls\<close> returns
  afterwards.
\<close>

theorem end_after_begin_duration:
  assumes "no_begin_end cid mid"
  shows "\<exists>rec active.
     returned (end_call_tracking t1 dt1 cid
        (run (pre @ Begin t0 dt0 cid to_phone from_phone # mid) CallTracker_init)) =
       Inr (Some rec)
     \<and> map_of rec ''start_time'' = Some (PFloat t0)
     \<and> map_of rec ''end_time'' = Some (PFloat t1)
     \<and> map_of rec ''duration'' = Some (PFloat (t1 - t0))
     \<and> returned (get_active_calls now (sessions_after (end_call_tracking t1 dt1 cid
          (run (pre @ Begin t0 dt0 cid to_phone from_phone # mid) CallTracker_init)))) =
         Inr active
     \<and> cid \<notin> keys active"
proof -
  let ?tr = "run (pre @ Begin t0 dt0 cid to_phone from_phone # mid) CallTracker_init"
  from begun_core [OF assms] obtain b a where
    s: "map_of ?tr cid = Some (stored_session t0 dt0 to_phone from_phone b a)" by blast
  have e: "end_call_tracking t1 dt1 cid ?tr =
      (Inr (Some (ended_session t0 dt0 to_phone from_phone b a t1 dt1)),
       [(INFO, CallEnded cid (PStr from_phone) (PStr to_phone) dt0 dt1 (t1 - t0)
          (if b then (case a of None \<Rightarrow> None
                      | Some ta \<Rightarrow> if ta = 0 \<or> t1 - ta = 0 then None else Some (t1 - ta))
           else None))],
       AList.delete cid ?tr)"
    by (rule end_stored [OF s])
  have "all_stored (AList.delete cid ?tr)"
    by (rule all_stored_delete [OF reachable_stored])
  from active_stored [OF this, of now] obtain active where
    a: "get_active_calls now (AList.delete cid ?tr) = (Inr active, [], AList.delete cid ?tr)"
    and k: "keys active = keys (AList.delete cid ?tr)" by blast
  from k have "cid \<notin> keys active" by (simp add: keys_delete)
  with a show ?thesis
    by (simp add: e returned_def sessions_after_def ended_session_def)
qed

theorem end_after_begin_duration_witness:
  "no_begin_end ''c1''
     [MarkAgent 11 (Datetime 2024 3 5 9 0 1 0) ''c1'',
      Begin 11 (Datetime 2024 3 5 9 0 1 0) ''c2'' ''+1556'' ''+1777'',
      GetActive 12]
   \<and> (\<exists>rec active.
     returned (end_call_tracking 13 (Datetime 2024 3 5 9 0 3 0) ''c1''
        (run ([] @ Begin 10 (Datetime 2024 3 5 9 0 0 0) ''c1'' ''+1555'' ''+1777'' #
           [MarkAgent 11 (Datetime 2024 3 5 9 0 1 0) ''c1'',
            Begin 11 (Datetime 2024 3 5 9 0 1 0) ''c2'' ''+1556'' ''+1777'',
            GetActive 12]) CallTracker_init)) =
       Inr (Some rec)
     \<and> map_of rec ''start_time'' = Some (PFloat 10)
     \<and> map_of rec ''end_time'' = Some (PFloat 13)
     \<and> map_of rec ''duration'' = Some (PFloat (13 - 10))
     \<and> returned (get_active_calls 14 (sessions_after
          (end_call_tracking 13 (Datetime 2024 3 5 9 0 3 0) ''c1''
             (run ([] @ Begin 10 (Datetime 2024 3 5 9 0 0 0) ''c1'' ''+1555'' ''+1777'' #
                [MarkAgent 11 (Datetime 2024 3 5 9 0 1 0) ''c1'',
                 Begin 11 (Datetime 2024 3 5 9 0 1 0) ''c2'' ''+1556'' ''+1777'',
                 GetActive 12]) CallTracker_init)))) =
         Inr active
     \<and> ''c1'' \<notin> keys active)"
proof -
  have h: "no_begin_end ''c1''
     [MarkAgent 11 (Datetime 2024 3 5 9 0 1 0) ''c1'',
      Begin 11 (Datetime 2024 3 5 9 0 1 0) ''c2'' ''+1556'' ''+1777'',
      GetActive 12]"
    by (simp add: no_begin_end_def)
  show ?thesis
    using h end_after_begin_duration [OF h] by (rule conjI)
qed

text \<open>
  Claim C1, as the code has it. After begin at time \<open>t0\<close>, \<open>mark_agent_started\<close> at time
  \<open>t1\<close> and end at time \<open>t2\<close> of one id, in that order (no other begin or end of the id
  after the begin, no other call on the id after the mark), the record that
  \<open>end_call_tracking\<close> returns has \<open>agent_started\<close> true, \<open>agent_start_time = t1\<close> and
  \<open>end_time = t2\<close>, and it has no \<open>agent_duration\<close> key. The agent duration
  \<open>t2 - t1\<close> goes to the CALL ENDED log line only: the line carries it when \<open>t1\<close> and
  \<open>t2 - t1\<close> are both other than \<open>0.0\<close>, and AGENT NEVER STARTED otherwise.
\<close>

theorem end_after_agent_start:
  assumes "no_begin_end cid mid1" and "untouched cid mid2"
  shows "\<exists>rec.
     returned (end_call_tracking t2 dt2 cid
        (run (pre @ Begin t0 dt0 cid to_phone from_phone # mid1 @
              MarkAgent t1 dt1 cid # mid2) CallTracker_init)) = Inr (Some rec)
     \<and> map_of rec ''agent_started'' = Some (PBool True)
     \<and> map_of rec ''agent_start_time'' = Some (PFloat t1)
     \<and> map_of rec ''end_time'' = Some (PFloat t2)
     \<and> map_of rec ''agent_duration'' = None
     \<and> logged (end_call_tracking t2 dt2 cid
          (run (pre @ Begin t0 dt0 cid to_phone from_phone # mid1 @
                MarkAgent t1 dt1 cid # mid2) CallTracker_init)) =
         [(INFO, CallEnded cid (PStr from_phone) (PStr to_phone) dt0 dt2 (t2 - t0)
                   (if t1 = 0 \<or> t2 - t1 = 0 then None else Some (t2 - t1)))]"
proof -
  let ?tr1 = "run (pre @ Begin t0 dt0 cid to_phone from_phone # mid1) CallTracker_init"
  let ?tr = "run (pre @ Begin t0 dt0 cid to_phone from_phone # mid1 @
              MarkAgent t1 dt1 cid # mid2) CallTracker_init"
  from begun_core [OF assms(1)] obtain b a where
    s1: "map_of ?tr1 cid = Some (stored_session t0 dt0 to_phone from_phone b a)" by blast
  have split: "?tr = run mid2 (exec (MarkAgent t1 dt1 cid) ?tr1)"
    by (simp add: run_append)
  have "map_of (exec (MarkAgent t1 dt1 cid) ?tr1) cid =
      Some (stored_session t0 dt0 to_phone from_phone True (Some t1))"
    using s1 by (simp add: mark_stored sessions_after_def update_conv')
  then have s: "map_of ?tr cid = Some (stored_session t0 dt0 to_phone from_phone True (Some t1))"
    using run_other [OF assms(2)] split by simp
  have r: "map_of (ended_session t0 dt0 to_phone from_phone True (Some t1) t2 dt2)
        ''agent_started'' = Some (PBool True)"
    "map_of (ended_session t0 dt0 to_phone from_phone True (Some t1) t2 dt2)
        ''agent_start_time'' = Some (PFloat t1)"
    "map_of (ended_session t0 dt0 to_phone from_phone True (Some t1) t2 dt2)
        ''end_time'' = Some (PFloat t2)"
    "map_of (ended_session t0 dt0 to_phone from_phone True (Some t1) t2 dt2)
        ''agent_duration'' = None"
    by (simp_all add: ended_session_def)
  show ?thesis
    using r by (simp add: end_stored [OF s] returned_def logged_def)
qed

theorem end_after_agent_start_witness:
  "no_begin_end ''c1'' [GetStatus 10.5 ''c1'']
   \<and> untouched ''c1'' [GetActive 11.5]
   \<and> (\<exists>rec.
     returned (end_call_tracking 12 (Datetime 2024 3 5 9 0 2 0) ''c1''
        (run ([] @ Begin 10 (Datetime 2024 3 5 9 0 0 0) ''c1'' ''+1555'' ''+1777'' #
              [GetStatus 10.5 ''c1''] @
              MarkAgent 11 (Datetime 2024 3 5 9 0 1 0) ''c1'' # [GetActive 11.5])
           CallTracker_init)) = Inr (Some rec)
     \<and> map_of rec ''agent_started'' = Some (PBool True)
     \<and> map_of rec ''agent_start_time'' = Some (PFloat 11)
     \<and> map_of rec ''end_time'' = Some (PFloat 12)
     \<and> map_of rec ''agent_duration'' = None
     \<and> logged (end_call_tracking 12 (Datetime 2024 3 5 9 0 2 0) ''c1''
          (run ([] @ Begin 10 (Datetime 2024 3 5 9 0 0 0) ''c1'' ''+1555'' ''+1777'' #
                [GetStatus 10.5 ''c1''] @
                MarkAgent 11 (Datetime 2024 3 5 9 0 1 0) ''c1'' # [GetActive 11.5])
             CallTracker_init)) =
         [(INFO, CallEnded ''c1'' (PStr ''+1777'') (PStr ''+1555'')
                   (Datetime 2024 3 5 9 0 0 0) (Datetime 2024 3 5 9 0 2 0) (12 - 10)
                   (if (11::real) = 0 \<or> (12::real) - 11 = 0 then None
                    else Some (12 - 11)))])"
proof -
  have h1: "no_begin_end ''c1'' [GetStatus 10.5 ''c1'']"
    by (simp add: no_begin_end_def)
  have h2: "untouched ''c1'' [GetActive 11.5]"
    by (simp add: untouched_def)
  from end_after_agent_start [OF h1 h2] h1 h2 show ?thesis by blast
qed

text \<open>
  The claim as stated asks for an \<open>agent_duration\<close> field in the returned record. The
  session begun at 10, marked at 11 and ended at 12 returns the nine keys of the session
  dictionary, and \<open>agent_duration\<close> is not one of them.
\<close>

theorem agent_duration_not_in_record:
  "returned (end_call_tracking 12 (Datetime 2024 3 5 9 0 2 0) ''c1''
      (run [Begin 10 (Datetime 2024 3 5 9 0 0 0) ''c1'' ''+1555'' ''+1777'',
            MarkAgent 11 (Datetime 2024 3 5 9 0 1 0) ''c1''] CallTracker_init)) =
     Inr (Some [(''start_time'', PFloat 10),
                (''start_datetime'', PDatetime (Datetime 2024 3 5 9 0 0 0)),
                (''to_phone'', PStr ''+1555''),
                (''from_phone'', PStr ''+1777''),
                (''agent_started'', PBool True),
                (''agent_start_time'', PFloat 11),
                (''end_time'', PFloat 12),
                (''end_datetime'', PDatetime (Datetime 2024 3 5 9 0 2 0)),
                (''duration'', PFloat 2)])
   \<and> map_of [(''start_time'', PFloat 10),
              (''start_datetime'', PDatetime (Datetime 2024 3 5 9 0 0 0)),
              (''to_phone'', PStr ''+1555''),
              (''from_phone'', PStr ''+1777''),
              (''agent_started'', PBool True),
              (''agent_start_time'', PFloat 11),
              (''end_time'', PFloat 12),
              (''end_datetime'', PDatetime (Datetime 2024 3 5 9 0 2 0)),
              (''duration'', PFloat 2)] ''agent_duration'' = None"
  by (simp add: CallTracker_init_def start_call_tracking_def mark_agent_started_def
      end_call_tracking_def sessions_after_def returned_def new_session_def getitem_def
      agent_duration_of_def call_ended_msg_def Let_def)

subsection \<open>Marking the agent start again\<close>

text \<open>
  Claim C6, as the code has it. On a session the registry holds, with start time \<open>st\<close>,
  a call of \<open>mark_agent_started\<close> that reads the clock at \<open>t1\<close> and a later one that
  reads it at \<open>t2\<close>, with no call on that id in between: the first stores
  \<open>agent_start_time = t1\<close> and logs the setup duration \<open>t1 - st\<close>; the second returns
  without an error, overwrites \<open>agent_start_time\<close> with \<open>t2\<close>, leaves \<open>agent_started\<close>
  true and logs \<open>t2 - st\<close>. The second duration is at least the first when the
  clock has not gone back between the two readings, \<open>t1 \<le> t2\<close>.
\<close>

theorem mark_agent_started_again:
  assumes "map_of (run cs CallTracker_init) cid \<noteq> None"
    and "untouched cid mid"
  shows "\<exists>st s0 s1 s2.
     map_of (run cs CallTracker_init) cid = Some s0
     \<and> map_of s0 ''start_time'' = Some (PFloat st)
     \<and> logged (mark_agent_started t1 dt1 cid (run cs CallTracker_init)) =
         [(INFO, AgentStarted cid dt1 (t1 - st))]
     \<and> map_of (run (cs @ MarkAgent t1 dt1 cid # mid) CallTracker_init) cid = Some s1
     \<and> map_of s1 ''start_time'' = Some (PFloat st)
     \<and> map_of s1 ''agent_started'' = Some (PBool True)
     \<and> map_of s1 ''agent_start_time'' = Some (PFloat t1)
     \<and> returned (mark_agent_started t2 dt2 cid
          (run (cs @ MarkAgent t1 dt1 cid # mid) CallTracker_init)) = Inr ()
     \<and> logged (mark_agent_started t2 dt2 cid
          (run (cs @ MarkAgent t1 dt1 cid # mid) CallTracker_init)) =
         [(INFO, AgentStarted cid dt2 (t2 - st))]
     \<and> map_of (sessions_after (mark_agent_started t2 dt2 cid
          (run (cs @ MarkAgent t1 dt1 cid # mid) CallTracker_init))) cid = Some s2
     \<and> map_of s2 ''start_time'' = Some (PFloat st)
     \<and> map_of s2 ''agent_started'' = Some (PBool True)
     \<and> map_of s2 ''agent_start_time'' = Some (PFloat t2)
     \<and> (t1 \<le> t2 \<longrightarrow> t1 - st \<le> t2 - st)"
proof -
  let ?tr0 = "run cs CallTracker_init"
  let ?tr1 = "run (cs @ MarkAgent t1 dt1 cid # mid) CallTracker_init"
  from assms(1) obtain s where "map_of ?tr0 cid = Some s" by auto
  with reachable_stored [of cs] obtain st sdt to_phone from_phone b a where
    s0: "map_of ?tr0 cid = Some (stored_session st sdt to_phone from_phone b a)"
    by (auto elim: all_stored_lookup)
  have m1: "mark_agent_started t1 dt1 cid ?tr0 =
      (Inr (), [(INFO, AgentStarted cid dt1 (t1 - st))],
       AList.update cid (stored_session st sdt to_phone from_phone True (Some t1)) ?tr0)"
    by (rule mark_stored [OF s0])
  have "?tr1 = run mid (exec (MarkAgent t1 dt1 cid) ?tr0)"
    by (simp add: run_append)
  then have s1: "map_of ?tr1 cid =
      Some (stored_session st sdt to_phone from_phone True (Some t1))"
    using run_other [OF assms(2)] by (simp add: m1 sessions_after_def update_conv')
  have m2: "mark_agent_started t2 dt2 cid ?tr1 =
      (Inr (), [(INFO, AgentStarted cid dt2 (t2 - st))],
       AList.update cid (stored_session st sdt to_phone from_phone True (Some t2)) ?tr1)"
    by (rule mark_stored [OF s1])
  have f0: "map_of (stored_session st sdt to_phone from_phone x y) ''start_time''
      = Some (PFloat st)" for x y
    by (simp add: stored_session_def)
  have f1: "map_of (stored_session st sdt to_phone from_phone True (Some t)) ''agent_started''
      = Some (PBool True)"
    "map_of (stored_session st sdt to_phone from_phone True (Some t)) ''agent_start_time''
      = Some (PFloat t)" for t
    by (simp_all add: stored_session_def)
  show ?thesis
    using f0 f1
    by (simp add: s0 m1 m2 s1 logged_def returned_def sessions_after_def update_conv')
qed

theorem mark_agent_started_again_witness:
  "map_of (run [Begin 10 (Datetime 2024 3 5 9 0 0 0) ''c1'' ''+1555'' ''+1777'']
       CallTracker_init) ''c1'' \<noteq> None
   \<and> untouched ''c1'' [GetActive 11.5]
   \<and> (11::real) \<le> 12
   \<and> (\<exists>st s0 s1 s2.
     map_of (run [Begin 10 (Datetime 2024 3 5 9 0 0 0) ''c1'' ''+1555'' ''+1777'']
        CallTracker_init) ''c1'' = Some s0
     \<and> map_of s0 ''start_time'' = Some (PFloat st)
     \<and> logged (mark_agent_started 11 (Datetime 2024 3 5 9 0 1 0) ''c1''
        (run [Begin 10 (Datetime 2024 3 5 9 0 0 0) ''c1'' ''+1555'' ''+1777'']
           CallTracker_init)) =
       [(INFO, AgentStarted ''c1'' (Datetime 2024 3 5 9 0 1 0) (11 - st))]
     \<and> map_of (run ([Begin 10 (Datetime 2024 3 5 9 0 0 0) ''c1'' ''+1555'' ''+1777''] @
          MarkAgent 11 (Datetime 2024 3 5 9 0 1 0) ''c1'' # [GetActive 11.5])
          CallTracker_init) ''c1'' = Some s1
     \<and> map_of s1 ''agent_start_time'' = Some (PFloat 11)
     \<and> returned (mark_agent_started 12 (Datetime 2024 3 5 9 0 2 0) ''c1''
          (run ([Begin 10 (Datetime 2024 3 5 9 0 0 0) ''c1'' ''+1555'' ''+1777''] @
             MarkAgent 11 (Datetime 2024 3 5 9 0 1 0) ''c1'' # [GetActive 11.5])
             CallTracker_init)) = Inr ()
     \<and> logged (mark_agent_started 12 (Datetime 2024 3 5 9 0 2 0) ''c1''
          (run ([Begin 10 (Datetime 2024 3 5 9 0 0 0) ''c1'' ''+1555'' ''+1777''] @
             MarkAgent 11 (Datetime 2024 3 5 9 0 1 0) ''c1'' # [GetActive 11.5])
             CallTracker_init)) =
         [(INFO, AgentStarted ''c1'' (Datetime 2024 3 5 9 0 2 0) (12 - st))]
     \<and> map_of (sessions_after (mark_agent_started 12 (Datetime 2024 3 5 9 0 2 0) ''c1''
          (run ([Begin 10 (Datetime 2024 3 5 9 0 0 0) ''c1'' ''+1555'' ''+1777''] @
             MarkAgent 11 (Datetime 2024 3 5 9 0 1 0) ''c1'' # [GetActive 11.5])
             CallTracker_init))) ''c1'' = Some s2
     \<and> map_of s2 ''agent_started'' = Some (PBool True)
     \<and> map_of s2 ''agent_start_time'' = Some (PFloat 12)
     \<and> 11 - st \<le> 12 - st)"
proof -
  have h1: "map_of (run [Begin 10 (Datetime 2024 3 5 9 0 0 0) ''c1'' ''+1555'' ''+1777'']
       CallTracker_init) ''c1'' \<noteq> None"
    by (simp add: CallTracker_init_def start_call_tracking_def sessions_after_def)
  have h2: "untouched ''c1'' [GetActive 11.5]"
    by (simp add: untouched_def)
  have h3: "(11::real) \<le> 12" by simp
  from mark_agent_started_again [OF h1 h2, of 11 "Datetime 2024 3 5 9 0 1 0" 12
      "Datetime 2024 3 5 9 0 2 0"] h1 h2 h3
  show ?thesis by blast
qed

text \<open>
  The claim as stated gives the order of the two setup durations for every second call.
  The clock is \<^verbatim>\<open>time.time()\<close>, which may be set back: for a session begun at 10 and
  marked at 11, a second mark that reads 9 overwrites \<open>agent_start_time\<close> with 9 and logs
  the setup duration -1, less than the 1 the first call logged.
\<close>

theorem setup_duration_can_decrease:
  "logged (mark_agent_started 11 (Datetime 2024 3 5 9 0 1 0) ''c1''
      (run [Begin 10 (Datetime 2024 3 5 9 0 0 0) ''c1'' ''+1555'' ''+1777'']
         CallTracker_init)) =
     [(INFO, AgentStarted ''c1'' (Datetime 2024 3 5 9 0 1 0) 1)]
   \<and> logged (mark_agent_started 9 (Datetime 2024 3 5 8 59 59 0) ''c1''
        (run [Begin 10 (Datetime 2024 3 5 9 0 0 0) ''c1'' ''+1555'' ''+1777'',
              MarkAgent 11 (Datetime 2024 3 5 9 0 1 0) ''c1''] CallTracker_init)) =
       [(INFO, AgentStarted ''c1'' (Datetime 2024 3 5 8 59 59 0) (- 1))]
   \<and> map_of (sessions_after (mark_agent_started 9 (Datetime 2024 3 5 8 59 59 0) ''c1''
        (run [Begin 10 (Datetime 2024 3 5 9 0 0 0) ''c1'' ''+1555'' ''+1777'',
              MarkAgent 11 (Datetime 2024 3 5 9 0 1 0) ''c1''] CallTracker_init))) ''c1'' =
       Some [(''start_time'', PFloat 10),
             (''start_datetime'', PDatetime (Datetime 2024 3 5 9 0 0 0)),
             (''to_phone'', PStr ''+1555''),
             (''from_phone'', PStr ''+1777''),
             (''agent_started'', PBool True),
             (''agent_start_time'', PFloat 9),
             (''end_time'', PNone),
             (''end_datetime'', PNone),
             (''duration'', PNone)]
   \<and> (- 1 :: real) < 1"
  by (simp add: CallTracker_init_def start_call_tracking_def mark_agent_started_def
      sessions_after_def logged_def new_session_def getitem_def Let_def)

subsection \<open>Polling a live session\<close>



subsection \<open>The phone numbers of a session\<close>

text \<open>
  Claim C9. After \<open>start_call_tracking\<close> of an id with \<open>to_phone\<close> and \<open>from_phone\<close>, and
  any calls that neither begin nor end that id (marking its agent start, status and
  active-call queries, calls on other ids), the stored session still has exactly these
  two values, the view \<open>get_call_status\<close> returns has them, and so has the record
  \<open>end_call_tracking\<close> returns.
\<close>

theorem phones_never_modified:
  assumes "no_begin_end cid mid"
  shows "\<exists>s view rec.
     map_of (run (pre @ Begin t0 dt0 cid to_phone from_phone # mid) CallTracker_init) cid =
       Some s
     \<and> map_of s ''to_phone'' = Some (PStr to_phone)
     \<and> map_of s ''from_phone'' = Some (PStr from_phone)
     \<and> returned (get_call_status t cid
          (run (pre @ Begin t0 dt0 cid to_phone from_phone # mid) CallTracker_init)) =
         Inr (Some view)
     \<and> map_of view ''to_phone'' = Some (PStr to_phone)
     \<and> map_of view ''from_phone'' = Some (PStr from_phone)
     \<and> returned (end_call_tracking t1 dt1 cid
          (run (pre @ Begin t0 dt0 cid to_phone from_phone # mid) CallTracker_init)) =
         Inr (Some rec)
     \<and> map_of rec ''to_phone'' = Some (PStr to_phone)
     \<and> map_of rec ''from_phone'' = Some (PStr from_phone)"
proof -
  let ?tr = "run (pre @ Begin t0 dt0 cid to_phone from_phone # mid) CallTracker_init"
  from begun_core [OF assms] obtain b a where
    s: "map_of ?tr cid = Some (stored_session t0 dt0 to_phone from_phone b a)" by blast
  have f: "map_of (stored_session t0 dt0 to_phone from_phone b a) ''to_phone'' =
        Some (PStr to_phone)"
    "map_of (stored_session t0 dt0 to_phone from_phone b a) ''from_phone'' =
        Some (PStr from_phone)"
    by (simp_all add: stored_session_def)
  have v: "map_of (stored_session t0 dt0 to_phone from_phone b a @
        [(''current_duration'', PFloat (t - t0))]) ''to_phone'' = Some (PStr to_phone)"
    "map_of (stored_session t0 dt0 to_phone from_phone b a @
        [(''current_duration'', PFloat (t - t0))]) ''from_phone'' = Some (PStr from_phone)"
    by (simp_all add: stored_session_def)
  have e: "map_of (ended_session t0 dt0 to_phone from_phone b a t1 dt1) ''to_phone'' =
        Some (PStr to_phone)"
    "map_of (ended_session t0 dt0 to_phone from_phone b a t1 dt1) ''from_phone'' =
        Some (PStr from_phone)"
    by (simp_all add: ended_session_def)
  show ?thesis
    using f v e
    by (simp add: s status_stored [OF s] end_stored [OF s] returned_def del: map_of_append)
qed

theorem phones_never_modified_witness:
  "no_begin_end ''c1''
     [MarkAgent 11 (Datetime 2024 3 5 9 0 1 0) ''c1'',
      End 11 (Datetime 2024 3 5 9 0 1 0) ''c2'', GetStatus 11.5 ''c1'', GetActive 12]
   \<and> (\<exists>s view rec.
     map_of (run ([] @ Begin 10 (Datetime 2024 3 5 9 0 0 0) ''c1'' ''+1555'' ''+1777'' #
         [MarkAgent 11 (Datetime 2024 3 5 9 0 1 0) ''c1'',
          End 11 (Datetime 2024 3 5 9 0 1 0) ''c2'', GetStatus 11.5 ''c1'', GetActive 12])
         CallTracker_init) ''c1'' = Some s
     \<and> map_of s ''to_phone'' = Some (PStr ''+1555'')
     \<and> map_of s ''from_phone'' = Some (PStr ''+1777'')
     \<and> returned (get_call_status 12.5 ''c1''
          (run ([] @ Begin 10 (Datetime 2024 3 5 9 0 0 0) ''c1'' ''+1555'' ''+1777'' #
             [MarkAgent 11 (Datetime 2024 3 5 9 0 1 0) ''c1'',
              End 11 (Datetime 2024 3 5 9 0 1 0) ''c2'', GetStatus 11.5 ''c1'', GetActive 12])
             CallTracker_init)) = Inr (Some view)
     \<and> map_of view ''to_phone'' = Some (PStr ''+1555'')
     \<and> map_of view ''from_phone'' = Some (PStr ''+1777'')
     \<and> returned (end_call_tracking 13 (Datetime 2024 3 5 9 0 3 0) ''c1''
          (run ([] @ Begin 10 (Datetime 2024 3 5 9 0 0 0) ''c1'' ''+1555'' ''+1777'' #
             [MarkAgent 11 (Datetime 2024 3 5 9 0 1 0) ''c1'',
              End 11 (Datetime 2024 3 5 9 0 1 0) ''c2'', GetStatus 11.5 ''c1'', GetActive 12])
             CallTracker_init)) = Inr (Some rec)
     \<and> map_of rec ''to_phone'' = Some (PStr ''+1555'')
     \<and> map_of rec ''from_phone'' = Some (PStr ''+1777''))"
proof -
  have h: "no_begin_end ''c1''
     [MarkAgent 11 (Datetime 2024 3 5 9 0 1 0) ''c1'',
      End 11 (Datetime 2024 3 5 9 0 1 0) ''c2'', GetStatus 11.5 ''c1'', GetActive 12]"
    by (simp add: no_begin_end_def)
  show ?thesis
    using h phones_never_modified [OF h] by (rule conjI)
qed

subsection \<open>No stored session has an end time\<close>

text \<open>
  Claim C10. In every reachable registry every stored session has \<open>end_time\<close> \<open>None\<close>;
  so \<open>get_active_calls\<close> leaves no stored session out (its keys are the registry's), and
  \<open>get_call_status\<close> returns either \<open>None\<close> or a view with a \<open>current_duration\<close>.
\<close>

theorem stored_sessions_not_ended:
  "list_all (\<lambda>(k, s). map_of s ''end_time'' = Some PNone) (run cs CallTracker_init)
   \<and> (\<exists>active. returned (get_active_calls now (run cs CallTracker_init)) = Inr active
        \<and> keys active = keys (run cs CallTracker_init))
   \<and> (returned (get_call_status now cid (run cs CallTracker_init)) = Inr None
      \<or> (\<exists>view d. returned (get_call_status now cid (run cs CallTracker_init)) =
                     Inr (Some view)
            \<and> map_of view ''current_duration'' = Some (PFloat d)))"
proof -
  let ?tr = "run cs CallTracker_init"
  have st: "all_stored ?tr" by (rule reachable_stored)
  have a: "list_all (\<lambda>(k, s). map_of s ''end_time'' = Some PNone) ?tr"
    by (rule stored_end_time [OF st])
  from active_stored [OF st, of now] have b:
    "\<exists>active. returned (get_active_calls now ?tr) = Inr active \<and> keys active = keys ?tr"
    by (auto simp: returned_def)
  have c: "returned (get_call_status now cid ?tr) = Inr None
      \<or> (\<exists>view d. returned (get_call_status now cid ?tr) = Inr (Some view)
            \<and> map_of view ''current_duration'' = Some (PFloat d))"
  proof (cases "map_of ?tr cid")
    case None
    then show ?thesis by (simp add: get_call_status_def returned_def)
  next
    case (Some s)
    with st obtain st0 sdt to_phone from_phone x y where
      s: "map_of ?tr cid = Some (stored_session st0 sdt to_phone from_phone x y)"
      by (auto elim: all_stored_lookup)
    have "map_of (stored_session st0 sdt to_phone from_phone x y @
        [(''current_duration'', PFloat (now - st0))]) ''current_duration'' =
        Some (PFloat (now - st0))"
      by (simp add: stored_session_def)
    then show ?thesis
      by (simp add: status_stored [OF s] returned_def del: map_of_append)
  qed
  from a b c show ?thesis by blast
qed

end
